theory Spec2Isabelle
  imports Complex_Main
begin

section \<open>Numbers and text\<close>

text \<open>
  A JavaScript \<^verbatim>\<open>number\<close> is modelled by a real: every value is finite and the
  arithmetic is exact (no rounding of doubles); the special values of a double enter
  only in the section on the range of doubles below. The two question counts are the
  only numbers the calculator guards with \<^verbatim>\<open>|| 0\<close>, so they alone carry the value NaN.
  A string is a list of 8-bit characters, each standing for one code unit below 256;
  of the characters matched by \<^verbatim>\<open>\s\<close> and stripped by \<^verbatim>\<open>trim()\<close> the model
  therefore knows tab, line feed, vertical tab, form feed, carriage return, space and
  the no-break space.
\<close>

datatype jsnum = NaN | Num real

definition orZero :: "jsnum \<Rightarrow> real" where
  \<comment> \<open>\<^verbatim>\<open>x || 0\<close>: NaN and 0 are falsy, every other number is kept\<close>
  "orZero x = (case x of NaN \<Rightarrow> 0 | Num r \<Rightarrow> (if r = 0 then 0 else r))"

text \<open>
  An integer-valued number as \<^verbatim>\<open>parseInt\<close> returns it and as a slide carries it for
  its id: NaN, an integer, or an infinity.
\<close>

datatype intnum = IntNaN | IntVal int | PosInfinity | NegInfinity

definition isPositive :: "intnum \<Rightarrow> bool" where
  \<comment> \<open>\<^verbatim>\<open>!isNaN(x) && x > 0\<close>\<close>
  "isPositive x =
     (case x of IntNaN \<Rightarrow> False | IntVal n \<Rightarrow> n > 0 | PosInfinity \<Rightarrow> True | NegInfinity \<Rightarrow> False)"

definition strictEq :: "intnum \<Rightarrow> intnum \<Rightarrow> bool" where
  \<comment> \<open>\<^verbatim>\<open>a === b\<close>: NaN equals nothing\<close>
  "strictEq a b = (a \<noteq> IntNaN \<and> a = b)"

definition isSpace :: "char \<Rightarrow> bool" where
  "isSpace c = (of_char c \<in> {9, 10, 11, 12, 13, 32, 160 :: nat})"

definition trim :: "string \<Rightarrow> string" where
  "trim s = rev (dropWhile isSpace (rev (dropWhile isSpace s)))"

text \<open>
  \<^verbatim>\<open>s.split(/\s+/)\<close>: the text before the first run of whitespace, then the split of
  what follows the run; a string without whitespace (also the empty one) is its own
  single piece, and a run at either end leaves an empty piece there.
\<close>

function split_ws :: "string \<Rightarrow> string list" where
  "split_ws s =
     (case dropWhile (\<lambda>c. \<not> isSpace c) s of
        [] \<Rightarrow> [s]
      | r # rs \<Rightarrow> takeWhile (\<lambda>c. \<not> isSpace c) s # split_ws (dropWhile isSpace rs))"
  by pat_completeness auto
termination
proof (relation "measure length", goal_cases)
  case 1
  show ?case by simp
next
  case (2 s r rs)
  have "length (dropWhile isSpace rs) \<le> length rs"
    by (rule length_dropWhile_le)
  moreover have "length (dropWhile (\<lambda>c. \<not> isSpace c) s) \<le> length s"
    by (rule length_dropWhile_le)
  ultimately show ?case using 2 by simp
qed

declare split_ws.simps [simp del]

definition getWordCount :: "string \<Rightarrow> nat" where
  \<comment> \<open>\<^verbatim>\<open>text.trim().split(/\s+/).filter(Boolean).length\<close>\<close>
  "getWordCount text = length (filter (\<lambda>t. t \<noteq> []) (split_ws (trim text)))"

section \<open>Data model (types.ts)\<close>

datatype SourceType = OST | AUDIO | BOTH

datatype AudioSource = upload | manual

datatype Simulated = sim_upload | sim_transcription | sim_trim | sim_none

record Segment =
  seg_start :: real
  seg_end :: real
  seg_text :: string

record Transcription =
  segments :: "Segment list"
  wordCount :: real

text \<open>An optional field is an option: \<open>None\<close> is the absent property.\<close>

record AudioMeta =
  source :: AudioSource
  fileId :: "string option"
  fileName :: "string option"
  fileSize :: "real option"
  originalDuration :: "real option"
  trimmedDuration :: "real option"
  trimmedRanges :: "(real \<times> real) list option"
  isTrimmed :: "bool option"
  simulated :: "Simulated option"
  commandSnippet :: "string option"
  transcription :: "Transcription option"

definition manualMeta :: AudioMeta where
  \<comment> \<open>\<^verbatim>\<open>{ source: 'manual' }\<close>\<close>
  "manualMeta = \<lparr>source = manual, fileId = None, fileName = None, fileSize = None,
     originalDuration = None, trimmedDuration = None, trimmedRanges = None,
     isTrimmed = None, simulated = None, commandSnippet = None, transcription = None\<rparr>"

text \<open>
  The slide. Its \<^verbatim>\<open>id\<close> is the field \<open>slideId\<close>, an integer or, from a very long
  slide number, an infinity. \<^verbatim>\<open>isDiscarded\<close> is optional in
  the interface and only ever tested for truth, and every slide is built by
  \<^verbatim>\<open>createSlideObject\<close> with the value false: it is a boolean here.
\<close>

record Slide =
  slideId :: intnum
  ost :: string
  transcript :: string
  selectedSource :: SourceType
  audioDuration :: real
  isFinalized :: bool
  audioMeta :: AudioMeta
  isDiscarded :: bool
  discardReason :: "string option"
  discardNote :: "string option"
  discardedAt :: "string option"
  discardedBy :: "string option"
  undoAt :: "string option"
  undoBy :: "string option"

record Totals =
  totalWords :: nat
  totalAvMinutes :: real

record CpeMetrics = Totals +
  totalQuestions :: real
  wordsCpe :: real
  avCpe :: real
  questionsCpe :: real
  rawCpeHours :: real
  roundedCpe :: real

section \<open>The CPE calculator (useCpeCalculator)\<close>

definition activeSlides :: "Slide list \<Rightarrow> Slide list" where
  "activeSlides slides = filter (\<lambda>slide. \<not> isDiscarded slide) slides"

definition reducer :: "Totals \<Rightarrow> Slide \<Rightarrow> Totals" where
  \<comment> \<open>the callback of \<^verbatim>\<open>activeSlides.reduce\<close>\<close>
  "reducer acc slide =
     (case selectedSource slide of
        OST \<Rightarrow> acc\<lparr>totalWords := totalWords acc + getWordCount (ost slide)\<rparr>
      | AUDIO \<Rightarrow> acc\<lparr>totalAvMinutes := totalAvMinutes acc + audioDuration slide\<rparr>
      | BOTH \<Rightarrow> acc\<lparr>totalWords := totalWords acc + getWordCount (ost slide),
                      totalAvMinutes := totalAvMinutes acc + audioDuration slide\<rparr>)"

definition totals :: "Slide list \<Rightarrow> Totals" where
  "totals slides =
     foldl reducer \<lparr>totalWords = 0, totalAvMinutes = 0\<rparr> (activeSlides slides)"

definition useCpeCalculator :: "Slide list \<Rightarrow> jsnum \<Rightarrow> jsnum \<Rightarrow> CpeMetrics" where
  "useCpeCalculator slides reviewQuestions finalExamQuestions =
     (let tot = totals slides;
          totalQuestions = orZero reviewQuestions + orZero finalExamQuestions;
          wordsCpe = real (totalWords tot) / 180;
          avCpe = totalAvMinutes tot;
          questionsCpe = totalQuestions * 1.85;
          totalCpeMinutes = wordsCpe + avCpe + questionsCpe;
          rawCpeHours = totalCpeMinutes / 60;
          roundedCpe = real_of_int \<lfloor>rawCpeHours * 2\<rfloor> / 2
      in \<lparr>totalWords = totalWords tot, totalAvMinutes = totalAvMinutes tot,
          totalQuestions = totalQuestions, wordsCpe = wordsCpe, avCpe = avCpe,
          questionsCpe = questionsCpe, rawCpeHours = rawCpeHours,
          roundedCpe = (if roundedCpe > 0 then roundedCpe else 0)\<rparr>)"

text \<open>A slide as the file parser creates it (\<^verbatim>\<open>createSlideObject\<close>).\<close>

definition createSlideObject :: "intnum \<Rightarrow> string \<Rightarrow> string \<Rightarrow> Slide" where
  "createSlideObject i o_text t_text =
     \<lparr>slideId = i, ost = o_text, transcript = t_text, selectedSource = OST,
      audioDuration = 0, isFinalized = False, audioMeta = manualMeta,
      isDiscarded = False, discardReason = None, discardNote = None,
      discardedAt = None, discardedBy = None, undoAt = None, undoBy = None\<rparr>"

text \<open>Example slides used to run the calculator on concrete inputs.\<close>

definition audioSlide :: "real \<Rightarrow> Slide" where
  "audioSlide d = (createSlideObject (IntVal 1) [] [])\<lparr>selectedSource := AUDIO, audioDuration := d\<rparr>"

definition textSlide :: "string \<Rightarrow> Slide" where
  "textSlide t = createSlideObject (IntVal 2) t []"

section \<open>The calculator over the range of doubles\<close>

text \<open>
  The same computation with the special values of a double. A number is NaN, finite,
  or an infinity; the result of an addition, multiplication or division whose exact
  value reaches \<open>2 ^ 1024 - 2 ^ 970\<close> in magnitude is an infinity, and every other
  result is the exact value rounded by \<open>rnd\<close>, the rounding to the nearest double, which
  is a parameter. \<^verbatim>\<open>Math.floor\<close> is exact, and so is the division by 2 of its result,
  an integer. The inputs are finite (or NaN, for the question counts), as the number
  fields of the page deliver them, and a word total is a small integer, added exactly.
\<close>

datatype xnum = NaNx | Fin real | PosInf | NegInf

definition overflowBound :: real where
  "overflowBound = 2 ^ 1024 - 2 ^ 970"

definition fin :: "(real \<Rightarrow> real) \<Rightarrow> real \<Rightarrow> xnum" where
  "fin rnd x =
     (if x \<ge> overflowBound then PosInf
      else if x \<le> - overflowBound then NegInf
      else Fin (rnd x))"

fun xadd :: "(real \<Rightarrow> real) \<Rightarrow> xnum \<Rightarrow> xnum \<Rightarrow> xnum" where
  "xadd rnd (Fin a) (Fin b) = fin rnd (a + b)"
| "xadd rnd NaNx y = NaNx"
| "xadd rnd x NaNx = NaNx"
| "xadd rnd PosInf NegInf = NaNx"
| "xadd rnd NegInf PosInf = NaNx"
| "xadd rnd PosInf y = PosInf"
| "xadd rnd x PosInf = PosInf"
| "xadd rnd NegInf y = NegInf"
| "xadd rnd x NegInf = NegInf"

definition xmul :: "(real \<Rightarrow> real) \<Rightarrow> xnum \<Rightarrow> real \<Rightarrow> xnum" where
  \<comment> \<open>\<^verbatim>\<open>x * c\<close> for a positive constant \<open>c\<close>\<close>
  "xmul rnd x c =
     (case x of NaNx \<Rightarrow> NaNx | Fin a \<Rightarrow> fin rnd (a * c) | PosInf \<Rightarrow> PosInf | NegInf \<Rightarrow> NegInf)"

definition xdiv :: "(real \<Rightarrow> real) \<Rightarrow> xnum \<Rightarrow> real \<Rightarrow> xnum" where
  \<comment> \<open>\<^verbatim>\<open>x / c\<close> for a positive constant \<open>c\<close>\<close>
  "xdiv rnd x c =
     (case x of NaNx \<Rightarrow> NaNx | Fin a \<Rightarrow> fin rnd (a / c) | PosInf \<Rightarrow> PosInf | NegInf \<Rightarrow> NegInf)"

definition xfloor :: "xnum \<Rightarrow> xnum" where
  "xfloor x =
     (case x of NaNx \<Rightarrow> NaNx | Fin a \<Rightarrow> Fin (real_of_int \<lfloor>a\<rfloor>) | PosInf \<Rightarrow> PosInf
      | NegInf \<Rightarrow> NegInf)"

definition xhalf :: "xnum \<Rightarrow> xnum" where
  \<comment> \<open>\<^verbatim>\<open>n / 2\<close> for the integer \<open>n\<close> that \<^verbatim>\<open>Math.floor\<close> returned\<close>
  "xhalf x =
     (case x of NaNx \<Rightarrow> NaNx | Fin a \<Rightarrow> Fin (a / 2) | PosInf \<Rightarrow> PosInf | NegInf \<Rightarrow> NegInf)"

definition xpositive :: "xnum \<Rightarrow> bool" where
  \<comment> \<open>\<^verbatim>\<open>x > 0\<close>\<close>
  "xpositive x = (case x of NaNx \<Rightarrow> False | Fin a \<Rightarrow> a > 0 | PosInf \<Rightarrow> True | NegInf \<Rightarrow> False)"

record Totals_fp =
  totalWords_fp :: nat
  totalAvMinutes_fp :: xnum

record CpeMetrics_fp = Totals_fp +
  totalQuestions_fp :: xnum
  wordsCpe_fp :: xnum
  avCpe_fp :: xnum
  questionsCpe_fp :: xnum
  rawCpeHours_fp :: xnum
  roundedCpe_fp :: xnum

definition reducer_fp :: "(real \<Rightarrow> real) \<Rightarrow> Totals_fp \<Rightarrow> Slide \<Rightarrow> Totals_fp" where
  "reducer_fp rnd acc slide =
     (case selectedSource slide of
        OST \<Rightarrow> acc\<lparr>totalWords_fp := totalWords_fp acc + getWordCount (ost slide)\<rparr>
      | AUDIO \<Rightarrow> acc\<lparr>totalAvMinutes_fp :=
                       xadd rnd (totalAvMinutes_fp acc) (Fin (audioDuration slide))\<rparr>
      | BOTH \<Rightarrow> acc\<lparr>totalWords_fp := totalWords_fp acc + getWordCount (ost slide),
                      totalAvMinutes_fp :=
                        xadd rnd (totalAvMinutes_fp acc) (Fin (audioDuration slide))\<rparr>)"

definition totals_fp :: "(real \<Rightarrow> real) \<Rightarrow> Slide list \<Rightarrow> Totals_fp" where
  "totals_fp rnd slides =
     foldl (reducer_fp rnd) \<lparr>totalWords_fp = 0, totalAvMinutes_fp = Fin 0\<rparr>
       (activeSlides slides)"

definition useCpeCalculator_fp ::
  "(real \<Rightarrow> real) \<Rightarrow> Slide list \<Rightarrow> jsnum \<Rightarrow> jsnum \<Rightarrow> CpeMetrics_fp" where
  "useCpeCalculator_fp rnd slides reviewQuestions finalExamQuestions =
     (let tot = totals_fp rnd slides;
          totalQuestions =
            xadd rnd (Fin (orZero reviewQuestions)) (Fin (orZero finalExamQuestions));
          wordsCpe = xdiv rnd (Fin (real (totalWords_fp tot))) 180;
          avCpe = totalAvMinutes_fp tot;
          questionsCpe = xmul rnd totalQuestions 1.85;
          totalCpeMinutes = xadd rnd (xadd rnd wordsCpe avCpe) questionsCpe;
          rawCpeHours = xdiv rnd totalCpeMinutes 60;
          roundedCpe = xhalf (xfloor (xmul rnd rawCpeHours 2))
      in \<lparr>totalWords_fp = totalWords_fp tot, totalAvMinutes_fp = totalAvMinutes_fp tot,
          totalQuestions_fp = totalQuestions, wordsCpe_fp = wordsCpe, avCpe_fp = avCpe,
          questionsCpe_fp = questionsCpe, rawCpeHours_fp = rawCpeHours,
          roundedCpe_fp = (if xpositive roundedCpe then roundedCpe else Fin 0)\<rparr>)"

section \<open>The slide editor (SlideEditor) and its parent's slide list\<close>

text \<open>
  The component's props and state. \<open>slide\<close> is the prop; the state variables that share
  a name with a field of the slide carry the prefix \<open>st_\<close>. The handlers are functions
  of this record: they return the new state and, as an option, the slide they pass to
  \<^verbatim>\<open>onUpdate\<close> or \<^verbatim>\<open>onDiscardAndNext\<close> (\<open>None\<close> when they do not call it). The
  current time \<^verbatim>\<open>new Date().toISOString()\<close> is a parameter.
\<close>

record Editor =
  slide :: Slide
  st_ost :: string
  st_transcript :: string
  st_selectedSource :: SourceType
  st_isFinalized :: bool
  finalizeError :: "string option"
  isAudioModalOpen :: bool
  isDiscardModalOpen :: bool
  st_discardReason :: string
  st_discardNote :: string
  st_audioMeta :: AudioMeta
  minutes :: int
  seconds :: int
  st_audioDuration :: real

definition mountEditor :: "Slide \<Rightarrow> Editor" where
  \<comment> \<open>the initial values of the \<^verbatim>\<open>useState\<close> calls; \<^verbatim>\<open>Math.round x\<close> is \<open>\<lfloor>x + 1/2\<rfloor>\<close>\<close>
  "mountEditor s =
     (let initialMinutes = \<lfloor>audioDuration s\<rfloor>;
          initialSeconds = \<lfloor>(audioDuration s - real_of_int initialMinutes) * 60 + 1 / 2\<rfloor>
      in \<lparr>slide = s, st_ost = ost s, st_transcript = transcript s,
          st_selectedSource = selectedSource s, st_isFinalized = isFinalized s,
          finalizeError = None, isAudioModalOpen = False, isDiscardModalOpen = False,
          st_discardReason = [], st_discardNote = [], st_audioMeta = audioMeta s,
          minutes = initialMinutes, seconds = initialSeconds,
          st_audioDuration = audioDuration s\<rparr>)"

definition durationEffect :: "Editor \<Rightarrow> Editor" where
  \<comment> \<open>the effect on \<^verbatim>\<open>[minutes, seconds]\<close>, run after mounting and after each change of
      the two; both are integers, so \<^verbatim>\<open>|| 0\<close> keeps them\<close>
  "durationEffect e =
     e\<lparr>st_audioDuration := real_of_int (minutes e) + real_of_int (seconds e) / 60\<rparr>"

definition onMinutesChange :: "int \<Rightarrow> Editor \<Rightarrow> Editor" where
  \<comment> \<open>the argument is \<^verbatim>\<open>parseInt(e.target.value) || 0\<close>\<close>
  "onMinutesChange v e = e\<lparr>minutes := v, st_audioMeta := manualMeta\<rparr>"

definition onSecondsChange :: "int \<Rightarrow> Editor \<Rightarrow> Editor" where
  "onSecondsChange v e = e\<lparr>seconds := v, st_audioMeta := manualMeta\<rparr>"

definition setSelectedSource :: "SourceType \<Rightarrow> Editor \<Rightarrow> Editor" where
  "setSelectedSource v e = e\<lparr>st_selectedSource := v\<rparr>"

definition setDiscardReason :: "string \<Rightarrow> Editor \<Rightarrow> Editor" where
  "setDiscardReason v e = e\<lparr>st_discardReason := v\<rparr>"

definition finalizeMessage :: string where
  "finalizeMessage = ''Please enter audio duration for the selected source before finalizing.''"

definition handleFinalize :: "Editor \<Rightarrow> bool \<times> Editor \<times> Slide option" where
  "handleFinalize e =
     (if \<not> st_isFinalized e
         \<and> (st_selectedSource e = AUDIO \<or> st_selectedSource e = BOTH)
         \<and> st_audioDuration e = 0
      then (False, e\<lparr>finalizeError := Some finalizeMessage\<rparr>, None)
      else (let finalizedState = \<not> st_isFinalized e
            in (True,
                e\<lparr>finalizeError := None, st_isFinalized := finalizedState\<rparr>,
                Some ((slide e)\<lparr>ost := st_ost e, transcript := st_transcript e,
                        selectedSource := st_selectedSource e,
                        audioDuration := st_audioDuration e,
                        audioMeta := st_audioMeta e,
                        isFinalized := finalizedState\<rparr>))))"

definition handleDiscardConfirm :: "string \<Rightarrow> Editor \<Rightarrow> Editor \<times> Slide option" where
  "handleDiscardConfirm now e =
     (if st_discardReason e = [] then (e, None)
      else (e\<lparr>isDiscardModalOpen := False\<rparr>,
            Some ((slide e)\<lparr>ost := st_ost e, transcript := st_transcript e,
                    selectedSource := st_selectedSource e,
                    audioDuration := st_audioDuration e,
                    audioMeta := st_audioMeta e,
                    isDiscarded := True,
                    discardReason := Some (st_discardReason e),
                    discardNote := Some (if st_discardReason e = ''Other''
                                         then st_discardNote e else []),
                    discardedAt := Some now,
                    discardedBy := Some ''user''\<rparr>)))"

definition handleUndoDiscard :: "string \<Rightarrow> Editor \<Rightarrow> Slide" where
  \<comment> \<open>the slide passed to \<^verbatim>\<open>onUpdate\<close>; the handler has no guard\<close>
  "handleUndoDiscard now e =
     (slide e)\<lparr>isDiscarded := False, undoAt := Some now, undoBy := Some ''user''\<rparr>"

text \<open>
  The parent's \<^verbatim>\<open>handleSlideUpdate\<close> replaces the slides of the same id (the toast
  is left out); \<open>applyUpdate\<close> is the parent's list after a handler that may or may not
  have called it.
\<close>

definition handleSlideUpdate :: "Slide \<Rightarrow> Slide list \<Rightarrow> Slide list" where
  "handleSlideUpdate updatedSlide currentSlides =
     map (\<lambda>s. if strictEq (slideId s) (slideId updatedSlide) then updatedSlide else s)
       currentSlides"

definition applyUpdate :: "Slide option \<Rightarrow> Slide list \<Rightarrow> Slide list" where
  "applyUpdate upd currentSlides =
     (case upd of None \<Rightarrow> currentSlides | Some u \<Rightarrow> handleSlideUpdate u currentSlides)"

section \<open>The file parser (fileParser.ts)\<close>

text \<open>
  A worksheet is the list of its rows, as \<^verbatim>\<open>sheet_to_json\<close> returns them, and a row
  the list of its cells. A cell is \<open>None\<close> for a hole of the row array (a blank cell
  before the last filled one) or \<open>Some\<close> of the text \<^verbatim>\<open>String\<close> gives for its value. In
  the header row \<^verbatim>\<open>json[0].map(h => String(h))\<close> keeps the holes, and the callback of
  \<^verbatim>\<open>findIndex\<close> throws a TypeError when it reaches one. In a data row
  \<^verbatim>\<open>String(row[i] || '')\<close> gives a hole the empty text; a cell whose value is falsy
  (0, false, the empty string) is given as a hole there. A CSV row is a map from header
  names to texts.
\<close>

datatype ParseError = XlsxColumnsNotFound | CsvColumnsNotFound | UnsupportedFileType | TypeError

text \<open>
  \<^verbatim>\<open>parseInt(s, 10)\<close> skips leading whitespace, reads a sign and the longest run of
  decimal digits, and is NaN when there is no digit. Its result is the double nearest
  to the integer read (ties to even), so \<open>toNumber\<close> rounds an integer of more than 53
  bits to 53 significant bits and overflows to infinity from \<open>2 ^ 1024\<close> on.
\<close>

definition isDigit :: "char \<Rightarrow> bool" where
  "isDigit c = (48 \<le> (of_char c :: nat) \<and> (of_char c :: nat) \<le> 57)"

definition digitVal :: "char \<Rightarrow> nat" where
  "digitVal c = of_char c - 48"

fun bitLength :: "nat \<Rightarrow> nat" where
  "bitLength n = (if n = 0 then 0 else Suc (bitLength (n div 2)))"

declare bitLength.simps [simp del]

definition toNumber :: "nat \<Rightarrow> nat option" where
  "toNumber n =
     (if n < 2 ^ 53 then Some n
      else (let sh = bitLength n - 53;
                q = n div 2 ^ sh;
                r = n mod 2 ^ sh;
                half = 2 ^ (sh - 1);
                v = (if r > half \<or> (r = half \<and> odd q) then q + 1 else q) * 2 ^ sh
            in if v \<ge> 2 ^ 1024 then None else Some v))"

definition parseInt :: "string \<Rightarrow> intnum" where
  "parseInt s =
     (let t = dropWhile isSpace s;
          neg = (case t of [] \<Rightarrow> False | c # _ \<Rightarrow> c = CHR ''-'');
          u = (case t of [] \<Rightarrow> [] | c # r \<Rightarrow> if c = CHR ''-'' \<or> c = CHR ''+'' then r else t);
          ds = takeWhile isDigit u
      in if ds = [] then IntNaN
         else (case toNumber (foldl (\<lambda>a c. 10 * a + digitVal c) 0 ds) of
                 None \<Rightarrow> (if neg then NegInfinity else PosInfinity)
               | Some v \<Rightarrow> IntVal (if neg then - int v else int v)))"

definition toLowerChar :: "char \<Rightarrow> char" where
  "toLowerChar c =
     (let n = (of_char c :: nat)
      in if (65 \<le> n \<and> n \<le> 90) \<or> (192 \<le> n \<and> n \<le> 222 \<and> n \<noteq> 215)
         then char_of (n + 32) else c)"

definition toLowerCase :: "string \<Rightarrow> string" where
  "toLowerCase s = map toLowerChar s"

text \<open>
  \<^verbatim>\<open>header.findIndex(h => h.toLowerCase().trim() === name.toLowerCase())\<close>: the index
  of the first matching cell, \<open>None\<close> for the result -1, and the TypeError of
  \<^verbatim>\<open>h.toLowerCase()\<close> when a hole comes before any match.
\<close>

fun headerIndex :: "string \<Rightarrow> string option list \<Rightarrow> ParseError + nat option" where
  "headerIndex name [] = Inr None"
| "headerIndex name (None # hs) = Inl TypeError"
| "headerIndex name (Some h # hs) =
     (if trim (toLowerCase h) = toLowerCase name then Inr (Some 0)
      else (case headerIndex name hs of
              Inl err \<Rightarrow> Inl err
            | Inr r \<Rightarrow> Inr (map_option Suc r)))"

fun findColumn :: "string option list \<Rightarrow> string list \<Rightarrow> ParseError + nat option" where
  "findColumn header [] = Inr None"
| "findColumn header (name # potentialNames) =
     (case headerIndex name header of
        Inl err \<Rightarrow> Inl err
      | Inr (Some index) \<Rightarrow> Inr (Some index)
      | Inr None \<Rightarrow> findColumn header potentialNames)"

definition ostNames :: "string list" where
  "ostNames = [''ost'', ''on-screen text'']"

definition transcriptNames :: "string list" where
  "transcriptNames = [''transcript'', ''audio'']"

definition slideNoNames :: "string list" where
  "slideNoNames = [''slide no'', ''slide #'', ''slideno'', ''slide number'']"

definition cellAt :: "string option list \<Rightarrow> nat \<Rightarrow> string" where
  \<comment> \<open>\<^verbatim>\<open>String(row[i] || '')\<close>\<close>
  "cellAt row i =
     (if i < length row then (case row ! i of None \<Rightarrow> [] | Some t \<Rightarrow> t) else [])"

definition xlsxKeepRow ::
  "nat option \<Rightarrow> nat option \<Rightarrow> nat option \<Rightarrow> string option list \<Rightarrow> bool" where
  \<comment> \<open>the callback of \<^verbatim>\<open>dataRows.filter\<close>\<close>
  "xlsxKeepRow slideNoIndex ostIndex transcriptIndex row =
     (case slideNoIndex of
        Some i \<Rightarrow> (let idFromCell = parseInt (cellAt row i) in isPositive idFromCell)
      | None \<Rightarrow>
          (let ostContent = (case ostIndex of Some j \<Rightarrow> trim (cellAt row j) | None \<Rightarrow> []);
               transcriptContent =
                 (case transcriptIndex of Some j \<Rightarrow> trim (cellAt row j) | None \<Rightarrow> [])
           in length ostContent > 0 \<or> length transcriptContent > 0))"

definition xlsxRowToSlide ::
  "nat option \<Rightarrow> nat option \<Rightarrow> nat option \<Rightarrow> nat \<times> string option list \<Rightarrow> Slide" where
  \<comment> \<open>the callback of \<^verbatim>\<open>.map((row, index) => ...)\<close>\<close>
  "xlsxRowToSlide slideNoIndex ostIndex transcriptIndex p =
     (case p of (index, row) \<Rightarrow>
        (let slideId =
               (case slideNoIndex of
                  Some i \<Rightarrow>
                    (let idFromCell = parseInt (cellAt row i)
                     in if isPositive idFromCell then idFromCell
                        else IntVal (int index + 1))
                | None \<Rightarrow> IntVal (int index + 1))
         in createSlideObject slideId
              (case ostIndex of Some j \<Rightarrow> cellAt row j | None \<Rightarrow> [])
              (case transcriptIndex of Some j \<Rightarrow> cellAt row j | None \<Rightarrow> [])))"

definition parseXlsx :: "string option list list \<Rightarrow> ParseError + Slide list" where
  \<comment> \<open>from the rows \<^verbatim>\<open>sheet_to_json\<close> returns on; an exception rejects the promise\<close>
  "parseXlsx json =
     (case json of
        [] \<Rightarrow> Inr []
      | [header] \<Rightarrow> Inr []
      | header # dataRows \<Rightarrow>
          (case findColumn header ostNames of
             Inl err \<Rightarrow> Inl err
           | Inr ostIndex \<Rightarrow>
          (case findColumn header transcriptNames of
             Inl err \<Rightarrow> Inl err
           | Inr transcriptIndex \<Rightarrow>
          (case findColumn header slideNoNames of
             Inl err \<Rightarrow> Inl err
           | Inr slideNoIndex \<Rightarrow>
               if ostIndex = None \<and> transcriptIndex = None then Inl XlsxColumnsNotFound
               else Inr (map (xlsxRowToSlide slideNoIndex ostIndex transcriptIndex)
                          (enumerate 0
                            (filter (xlsxKeepRow slideNoIndex ostIndex transcriptIndex)
                               dataRows)))))))"

definition fieldOf :: "(string \<rightharpoonup> string) \<Rightarrow> string \<Rightarrow> string" where
  \<comment> \<open>\<^verbatim>\<open>row[key] || ''\<close>\<close>
  "fieldOf row key = (case row key of None \<Rightarrow> [] | Some v \<Rightarrow> v)"

definition findKey :: "string list \<Rightarrow> string list \<Rightarrow> string option" where
  \<comment> \<open>\<^verbatim>\<open>header.find(h => names.includes(h.toLowerCase().trim()))\<close>\<close>
  "findKey header names = find (\<lambda>h. trim (toLowerCase h) \<in> set names) header"

definition csvKeepRow ::
  "string option \<Rightarrow> string option \<Rightarrow> string option \<Rightarrow> (string \<rightharpoonup> string) \<Rightarrow> bool" where
  "csvKeepRow slideNoKey ostKey transcriptKey row =
     (case slideNoKey of
        Some k \<Rightarrow> (let idFromCell = parseInt (fieldOf row k) in isPositive idFromCell)
      | None \<Rightarrow>
          (let ostContent = (case ostKey of Some k \<Rightarrow> trim (fieldOf row k) | None \<Rightarrow> []);
               transcriptContent =
                 (case transcriptKey of Some k \<Rightarrow> trim (fieldOf row k) | None \<Rightarrow> [])
           in length ostContent > 0 \<or> length transcriptContent > 0))"

definition csvRowToSlide ::
  "string option \<Rightarrow> string option \<Rightarrow> string option \<Rightarrow> nat \<times> (string \<rightharpoonup> string) \<Rightarrow> Slide" where
  "csvRowToSlide slideNoKey ostKey transcriptKey p =
     (case p of (index, row) \<Rightarrow>
        (let slideId =
               (case slideNoKey of
                  Some k \<Rightarrow>
                    (let idFromCell = parseInt (fieldOf row k)
                     in if isPositive idFromCell then idFromCell
                        else IntVal (int index + 1))
                | None \<Rightarrow> IntVal (int index + 1))
         in createSlideObject slideId
              (case ostKey of Some k \<Rightarrow> fieldOf row k | None \<Rightarrow> [])
              (case transcriptKey of Some k \<Rightarrow> fieldOf row k | None \<Rightarrow> [])))"

definition parseCsv ::
  "string list option \<Rightarrow> (string \<rightharpoonup> string) list \<Rightarrow> ParseError + Slide list" where
  \<comment> \<open>from \<^verbatim>\<open>results.meta.fields\<close> and \<^verbatim>\<open>results.data\<close> of the CSV reader\<close>
  "parseCsv metaFields rows =
     (let header = (case metaFields of None \<Rightarrow> [] | Some fs \<Rightarrow> fs);
          ostKey = findKey header ostNames;
          transcriptKey = findKey header transcriptNames;
          slideNoKey = findKey header slideNoNames
      in if ostKey = None \<and> transcriptKey = None then Inl CsvColumnsNotFound
         else Inr (map (csvRowToSlide slideNoKey ostKey transcriptKey)
                    (enumerate 0
                      (filter (csvKeepRow slideNoKey ostKey transcriptKey) rows))))"

section \<open>The specification's reading of the calculator\<close>

text \<open>
  The definitions of this section follow the words of the specification, not the code;
  the theorems below compare the code with them.

  Word count: split the text at whitespace, discard the empty tokens, count the rest.
  \<open>splitAll\<close> cuts at every single whitespace character, so a run of whitespace leaves
  empty tokens between its characters, and \<open>tokens\<close> discards them.
\<close>

fun splitAll :: "string \<Rightarrow> string list" where
  "splitAll [] = [[]]"
| "splitAll (c # cs) =
     (if isSpace c then [] # splitAll cs
      else (case splitAll cs of [] \<Rightarrow> [[c]] | t # ts \<Rightarrow> (c # t) # ts))"

definition tokens :: "string \<Rightarrow> string list" where
  "tokens s = filter (\<lambda>t. t \<noteq> []) (splitAll s)"

definition wordCount_spec :: "string \<Rightarrow> nat" where
  "wordCount_spec s = length (tokens s)"

definition wordContribution :: "Slide \<Rightarrow> nat" where
  "wordContribution s =
     (case selectedSource s of
        OST \<Rightarrow> wordCount_spec (ost s) | AUDIO \<Rightarrow> 0 | BOTH \<Rightarrow> wordCount_spec (ost s))"

definition timeContribution :: "Slide \<Rightarrow> real" where
  "timeContribution s =
     (case selectedSource s of
        OST \<Rightarrow> 0 | AUDIO \<Rightarrow> audioDuration s | BOTH \<Rightarrow> audioDuration s)"

text \<open>A question count "treated as 0 when it is negative or NaN".\<close>

definition spec_count :: "jsnum \<Rightarrow> real" where
  "spec_count x = (case x of NaN \<Rightarrow> 0 | Num r \<Rightarrow> (if r < 0 then 0 else r))"

section \<open>Example values\<close>

text \<open>
  A draft slide, the same slide finalized, and the finalized slide discarded with the
  reason Other and no note; an editor on the draft with the audio source selected.
\<close>

definition exDraft :: Slide where
  "exDraft = createSlideObject (IntVal 1) ''some text'' ''some narration''"

definition exFinal :: Slide where
  "exFinal = exDraft\<lparr>isFinalized := True\<rparr>"

definition exDiscarded :: Slide where
  "exDiscarded = exFinal\<lparr>isDiscarded := True, discardReason := Some ''Other'',
     discardNote := Some [], discardedAt := Some ''2024-01-01T00:00:00.000Z'',
     discardedBy := Some ''user''\<rparr>"

definition exAudioEditor :: Editor where
  "exAudioEditor = setSelectedSource AUDIO (mountEditor exDraft)"

text \<open>
  A small deck: an OST slide, an AUDIO slide, a BOTH slide, a discarded slide and an
  AUDIO slide of duration 0.
\<close>

definition exampleDeck :: "Slide list" where
  "exampleDeck =
     [textSlide '' the quick  brown fox '',
      audioSlide 90,
      (textSlide ''a b'')\<lparr>selectedSource := BOTH, audioDuration := 2\<rparr>,
      (textSlide ''never counted'')\<lparr>isDiscarded := True\<rparr>,
      (textSlide ''not counted either'')\<lparr>selectedSource := AUDIO\<rparr>]"

text \<open>
  A worksheet and a CSV row whose only data row has the slide-number cell n/a and the
  text hello world, and the same worksheet without the slide-number column.
\<close>

definition exSheet :: "string option list list" where
  "exSheet = [[Some ''Slide No'', Some ''OST''], [Some ''n/a'', Some ''hello world'']]"

definition exSheetUnnumbered :: "string option list list" where
  "exSheetUnnumbered = [[Some ''OST''], [Some ''hello world'']]"

definition exCsvRow :: "string \<rightharpoonup> string" where
  "exCsvRow = [''Slide No'' \<mapsto> ''n/a'', ''OST'' \<mapsto> ''hello world'']"

section \<open>Properties of the calculator\<close>

lemma totalWords_calc [simp]:
  "totalWords (useCpeCalculator slides rq fq) = totalWords (totals slides)"
  by (simp add: useCpeCalculator_def Let_def)

lemma totalAvMinutes_calc [simp]:
  "totalAvMinutes (useCpeCalculator slides rq fq) = totalAvMinutes (totals slides)"
  by (simp add: useCpeCalculator_def Let_def)

lemma totalQuestions_calc [simp]:
  "totalQuestions (useCpeCalculator slides rq fq) = orZero rq + orZero fq"
  by (simp add: useCpeCalculator_def Let_def)

lemma wordsCpe_calc [simp]:
  "wordsCpe (useCpeCalculator slides rq fq) = real (totalWords (totals slides)) / 180"
  by (simp add: useCpeCalculator_def Let_def)

lemma avCpe_calc [simp]:
  "avCpe (useCpeCalculator slides rq fq) = totalAvMinutes (totals slides)"
  by (simp add: useCpeCalculator_def Let_def)

lemma questionsCpe_calc [simp]:
  "questionsCpe (useCpeCalculator slides rq fq) = (orZero rq + orZero fq) * 1.85"
  by (simp add: useCpeCalculator_def Let_def)

lemma rawCpeHours_calc:
  "rawCpeHours (useCpeCalculator slides rq fq) =
     (real (totalWords (totals slides)) / 180 + totalAvMinutes (totals slides)
        + (orZero rq + orZero fq) * 1.85) / 60"
  by (simp only: useCpeCalculator_def Let_def CpeMetrics.select_convs)

lemma clamp_max: "(if r > 0 then r else 0) = max 0 (r::real)"
  by (simp add: max_def)

lemma roundedCpe_calc:
  "roundedCpe (useCpeCalculator slides rq fq) =
     max 0 (real_of_int \<lfloor>rawCpeHours (useCpeCalculator slides rq fq) * 2\<rfloor> / 2)"
  by (simp only: useCpeCalculator_def Let_def CpeMetrics.select_convs clamp_max)

lemma totals_single:
  "totals [s] = (if isDiscarded s then \<lparr>totalWords = 0, totalAvMinutes = 0\<rparr>
                 else reducer \<lparr>totalWords = 0, totalAvMinutes = 0\<rparr> s)"
  by (simp add: totals_def activeSlides_def)

lemma totals_audioSlide:
  "totals [audioSlide d] = \<lparr>totalWords = 0, totalAvMinutes = d\<rparr>"
  by (simp add: totals_single audioSlide_def createSlideObject_def reducer_def)

lemma half_floor_le: "real_of_int \<lfloor>x * 2\<rfloor> / 2 \<le> (x::real)"
proof -
  have "real_of_int \<lfloor>x * 2\<rfloor> \<le> x * 2" by (rule of_int_floor_le)
  then show ?thesis by simp
qed

lemma half_floor_gt: "(x::real) < real_of_int \<lfloor>x * 2\<rfloor> / 2 + 1 / 2"
proof -
  have "x * 2 < real_of_int \<lfloor>x * 2\<rfloor> + 1" by linarith
  then show ?thesis by linarith
qed

lemma half_floor_nonneg: "0 \<le> (x::real) \<Longrightarrow> 0 \<le> real_of_int \<lfloor>x * 2\<rfloor> / 2"
  by simp

lemma half_floor_mono: "(x::real) \<le> y \<Longrightarrow> real_of_int \<lfloor>x * 2\<rfloor> / 2 \<le> real_of_int \<lfloor>y * 2\<rfloor> / 2"
proof -
  assume "x \<le> y"
  then have "\<lfloor>x * 2\<rfloor> \<le> \<lfloor>y * 2\<rfloor>" by (intro floor_mono) simp
  then show ?thesis by simp
qed

text \<open>
  C1: for every slide collection and all question counts, rawCpeHours is the sum of the
  three CPE-minute values divided by 60, and roundedCpe is floor(rawCpeHours * 2) / 2
  with a negative result clamped to 0. For a non-negative rawCpeHours the result is
  exactly the floor value, never above rawCpeHours and less than half an hour below it.
  rawCpeHours 1.74 and 1.75 both give 1.5, and 2.0 gives 2.0.
\<close>

theorem C1_rounding_law:
  fixes slides :: "Slide list" and rq fq :: jsnum
  defines "m \<equiv> useCpeCalculator slides rq fq"
  shows "rawCpeHours m = (wordsCpe m + avCpe m + questionsCpe m) / 60
    \<and> roundedCpe m = max 0 (real_of_int \<lfloor>rawCpeHours m * 2\<rfloor> / 2)
    \<and> (0 \<le> rawCpeHours m \<longrightarrow>
          roundedCpe m = real_of_int \<lfloor>rawCpeHours m * 2\<rfloor> / 2
        \<and> roundedCpe m \<le> rawCpeHours m
        \<and> rawCpeHours m < roundedCpe m + 1 / 2)
    \<and> (rawCpeHours m < 0 \<longrightarrow> roundedCpe m = 0)
    \<and> (rawCpeHours m = 1.74 \<longrightarrow> roundedCpe m = 1.5)
    \<and> (rawCpeHours m = 1.75 \<longrightarrow> roundedCpe m = 1.5)
    \<and> (rawCpeHours m = 2.0 \<longrightarrow> roundedCpe m = 2.0)"
proof -
  let ?raw = "rawCpeHours m"
  let ?fl = "real_of_int \<lfloor>?raw * 2\<rfloor> / 2"
  have raw: "?raw = (wordsCpe m + avCpe m + questionsCpe m) / 60"
    unfolding m_def by (simp add: rawCpeHours_calc)
  have rnd: "roundedCpe m = max 0 ?fl"
    unfolding m_def by (rule roundedCpe_calc)
  have nonneg: "0 \<le> ?raw \<longrightarrow> roundedCpe m = ?fl \<and> roundedCpe m \<le> ?raw
      \<and> ?raw < roundedCpe m + 1 / 2"
  proof
    assume "0 \<le> ?raw"
    then have "0 \<le> ?fl" by (rule half_floor_nonneg)
    then have a: "roundedCpe m = ?fl" using rnd by simp
    have b: "?fl \<le> ?raw" by (rule half_floor_le)
    have c: "?raw < ?fl + 1 / 2" by (rule half_floor_gt)
    show "roundedCpe m = ?fl \<and> roundedCpe m \<le> ?raw \<and> ?raw < roundedCpe m + 1 / 2"
      by (intro conjI) (simp_all only: a b c)
  qed
  have neg: "?raw < 0 \<longrightarrow> roundedCpe m = 0"
  proof
    assume "?raw < 0"
    then have "?fl \<le> 0" using half_floor_le [of ?raw] by linarith
    then show "roundedCpe m = 0" using rnd by simp
  qed
  have e1: "?raw = 1.74 \<longrightarrow> roundedCpe m = 1.5"
  proof
    assume h: "?raw = 1.74"
    have "?fl = 1.5" unfolding h by simp
    then show "roundedCpe m = 1.5" using rnd by simp
  qed
  have e2: "?raw = 1.75 \<longrightarrow> roundedCpe m = 1.5"
  proof
    assume h: "?raw = 1.75"
    have "?fl = 1.5" unfolding h by simp
    then show "roundedCpe m = 1.5" using rnd by simp
  qed
  have e3: "?raw = 2.0 \<longrightarrow> roundedCpe m = 2.0"
  proof
    assume h: "?raw = 2.0"
    have "?fl = 2.0" unfolding h by simp
    then show "roundedCpe m = 2.0" using rnd by simp
  qed
  from raw rnd nonneg neg e1 e2 e3 show ?thesis by blast
qed

text \<open>
  The law at work: one audio slide of 104.4, 105 and 120 minutes gives rawCpeHours
  1.74, 1.75 and 2, rounded to 1.5, 1.5 and 2; a slide of minus 30 minutes gives a
  negative rawCpeHours and the clamped value 0.
\<close>

theorem C1_rounding_law_witness:
  "rawCpeHours (useCpeCalculator [audioSlide 104.4] (Num 0) (Num 0)) = 1.74
   \<and> roundedCpe (useCpeCalculator [audioSlide 104.4] (Num 0) (Num 0)) = 1.5
   \<and> rawCpeHours (useCpeCalculator [audioSlide 105] (Num 0) (Num 0)) = 1.75
   \<and> roundedCpe (useCpeCalculator [audioSlide 105] (Num 0) (Num 0)) = 1.5
   \<and> rawCpeHours (useCpeCalculator [audioSlide 120] (Num 0) (Num 0)) = 2.0
   \<and> roundedCpe (useCpeCalculator [audioSlide 120] (Num 0) (Num 0)) = 2.0
   \<and> rawCpeHours (useCpeCalculator [audioSlide (- 30)] (Num 0) (Num 0)) < 0
   \<and> roundedCpe (useCpeCalculator [audioSlide (- 30)] (Num 0) (Num 0)) = 0"
proof -
  have r1: "rawCpeHours (useCpeCalculator [audioSlide 104.4] (Num 0) (Num 0)) = 1.74"
    by (simp add: rawCpeHours_calc totals_audioSlide orZero_def)
  have r2: "rawCpeHours (useCpeCalculator [audioSlide 105] (Num 0) (Num 0)) = 1.75"
    by (simp add: rawCpeHours_calc totals_audioSlide orZero_def)
  have r3: "rawCpeHours (useCpeCalculator [audioSlide 120] (Num 0) (Num 0)) = 2.0"
    by (simp add: rawCpeHours_calc totals_audioSlide orZero_def)
  have r4: "rawCpeHours (useCpeCalculator [audioSlide (- 30)] (Num 0) (Num 0)) < 0"
    by (simp add: rawCpeHours_calc totals_audioSlide orZero_def)
  from r1 r2 r3 r4
    C1_rounding_law [of "[audioSlide 104.4]" "Num 0" "Num 0"]
    C1_rounding_law [of "[audioSlide 105]" "Num 0" "Num 0"]
    C1_rounding_law [of "[audioSlide 120]" "Num 0" "Num 0"]
    C1_rounding_law [of "[audioSlide (- 30)]" "Num 0" "Num 0"]
  show ?thesis by blast
qed


subsection \<open>Discarded slides\<close>

lemma activeSlides_idem: "activeSlides (activeSlides slides) = activeSlides slides"
  by (simp add: activeSlides_def)

lemma totals_activeSlides: "totals (activeSlides slides) = totals slides"
  by (simp add: totals_def activeSlides_idem)

lemma calc_totals_cong:
  "totals a = totals b \<Longrightarrow> useCpeCalculator a rq fq = useCpeCalculator b rq fq"
  by (simp add: useCpeCalculator_def)

lemma activeSlides_drop_discarded:
  "activeSlides (xs @ d\<lparr>isDiscarded := True\<rparr> # ys) = activeSlides (xs @ ys)"
  by (simp add: activeSlides_def)

text \<open>
  C2: a discarded slide contributes nothing, whatever its text, transcript, content
  source and duration are: the metrics of a collection are the metrics of its
  non-discarded slides, and a collection with a discarded slide anywhere in it has the
  metrics of the collection without that slide.
\<close>

theorem C2_discarded_contribute_nothing:
  "useCpeCalculator slides rq fq
     = useCpeCalculator (filter (\<lambda>s. \<not> isDiscarded s) slides) rq fq
   \<and> useCpeCalculator (xs @ d\<lparr>isDiscarded := True\<rparr> # ys) rq fq
     = useCpeCalculator (xs @ ys) rq fq"
proof
  have "totals slides = totals (activeSlides slides)"
    by (simp add: totals_activeSlides)
  then show "useCpeCalculator slides rq fq
      = useCpeCalculator (filter (\<lambda>s. \<not> isDiscarded s) slides) rq fq"
    unfolding activeSlides_def by (rule calc_totals_cong)
next
  have "totals (xs @ d\<lparr>isDiscarded := True\<rparr> # ys) = totals (xs @ ys)"
    by (simp add: totals_def activeSlides_drop_discarded)
  then show "useCpeCalculator (xs @ d\<lparr>isDiscarded := True\<rparr> # ys) rq fq
      = useCpeCalculator (xs @ ys) rq fq"
    by (rule calc_totals_cong)
qed

text \<open>
  A discarded audio slide of 500 minutes next to a four-word text slide: the metrics
  are those of the text slide alone.
\<close>

theorem C2_discarded_contribute_nothing_witness:
  "useCpeCalculator [textSlide ''the quick brown fox'', (audioSlide 500)\<lparr>isDiscarded := True\<rparr>]
       (Num 0) (Num 0)
     = useCpeCalculator [textSlide ''the quick brown fox''] (Num 0) (Num 0)"
  using C2_discarded_contribute_nothing
    [of "[textSlide ''the quick brown fox'', (audioSlide 500)\<lparr>isDiscarded := True\<rparr>]"
        "Num 0" "Num 0" "[textSlide ''the quick brown fox'']" "audioSlide 500" "[]"]
  by (simp add: textSlide_def createSlideObject_def)

subsection \<open>Word count\<close>

lemma splitAll_nonempty: "splitAll s \<noteq> []"
  by (induction s) (auto split: list.splits)

lemma splitAll_nospace: "\<forall>c \<in> set s. \<not> isSpace c \<Longrightarrow> splitAll s = [s]"
  by (induction s) auto

lemma splitAll_append_space:
  "\<forall>c \<in> set a. \<not> isSpace c \<Longrightarrow> isSpace r \<Longrightarrow> splitAll (a @ r # b) = a # splitAll b"
  by (induction a) auto

lemma tokens_Cons_space: "isSpace c \<Longrightarrow> tokens (c # s) = tokens s"
  by (simp add: tokens_def)

lemma tokens_dropWhile: "tokens (dropWhile isSpace s) = tokens s"
  by (induction s) (auto simp: tokens_Cons_space)

lemma splitAll_snoc_space: "isSpace c \<Longrightarrow> splitAll (s @ [c]) = splitAll s @ [[]]"
  by (induction s) (auto split: list.splits simp: splitAll_nonempty)

lemma tokens_snoc_space: "isSpace c \<Longrightarrow> tokens (s @ [c]) = tokens s"
  by (simp add: tokens_def splitAll_snoc_space)

lemma tokens_drop_trailing: "tokens (rev (dropWhile isSpace (rev s))) = tokens s"
  by (induction s rule: rev_induct) (auto simp: tokens_snoc_space)

lemma tokens_trim: "tokens (trim s) = tokens s"
  by (simp add: trim_def tokens_drop_trailing tokens_dropWhile)

lemma split_ws_tokens: "filter (\<lambda>t. t \<noteq> []) (split_ws s) = tokens s"
proof (induction s rule: split_ws.induct)
  case (1 s)
  let ?tok = "takeWhile (\<lambda>c. \<not> isSpace c) s"
  show ?case
  proof (cases "dropWhile (\<lambda>c. \<not> isSpace c) s")
    case Nil
    then have ns: "\<forall>c \<in> set s. \<not> isSpace c" by (simp add: dropWhile_eq_Nil_conv)
    have "split_ws s = [s]" by (subst split_ws.simps) (simp only: Nil list.case)
    then show ?thesis using ns by (simp add: tokens_def splitAll_nospace)
  next
    case (Cons r rs)
    have sp: "isSpace r" using Cons hd_dropWhile [of "\<lambda>c. \<not> isSpace c" s] by auto
    have s_eq: "s = ?tok @ r # rs"
      using Cons takeWhile_dropWhile_id [of "\<lambda>c. \<not> isSpace c" s] by simp
    have tk: "\<forall>c \<in> set ?tok. \<not> isSpace c" by (auto dest: set_takeWhileD)
    have "splitAll s = ?tok # splitAll rs"
      using splitAll_append_space [OF tk sp, of rs] s_eq by simp
    then have a: "tokens s = filter (\<lambda>t. t \<noteq> []) [?tok] @ tokens rs"
      by (simp add: tokens_def)
    have "split_ws s = ?tok # split_ws (dropWhile isSpace rs)"
      by (subst split_ws.simps) (simp only: Cons list.case)
    then have "filter (\<lambda>t. t \<noteq> []) (split_ws s)
        = filter (\<lambda>t. t \<noteq> []) [?tok] @ tokens (dropWhile isSpace rs)"
      using "1.IH" [OF Cons] by simp
    then show ?thesis using a by (simp add: tokens_dropWhile)
  qed
qed

lemma getWordCount_spec: "getWordCount s = wordCount_spec s"
  by (simp add: getWordCount_def wordCount_spec_def split_ws_tokens tokens_trim)

lemma tokens_spaces: "\<forall>c \<in> set w. isSpace c \<Longrightarrow> tokens w = []"
  by (induction w) (auto simp: tokens_Cons_space, simp add: tokens_def)

lemma tokens_word: "w \<noteq> [] \<Longrightarrow> \<forall>c \<in> set w. \<not> isSpace c \<Longrightarrow> tokens w = [w]"
  by (simp add: tokens_def splitAll_nospace)

lemma splitAll_append_sep: "isSpace c \<Longrightarrow> splitAll (a @ c # b) = splitAll a @ splitAll b"
proof (induction a)
  case Nil
  then show ?case by simp
next
  case (Cons x a)
  then show ?case
    by (cases "splitAll a") (auto simp: splitAll_nonempty)
qed

lemma tokens_append_sep: "isSpace c \<Longrightarrow> tokens (a @ c # b) = tokens a @ tokens b"
  by (simp add: tokens_def splitAll_append_sep)

lemma tokens_lead: "\<forall>c \<in> set l. isSpace c \<Longrightarrow> tokens (l @ s) = tokens s"
  by (induction l) (auto simp: tokens_Cons_space)

lemma tokens_trail: "\<forall>c \<in> set r. isSpace c \<Longrightarrow> tokens (s @ r) = tokens s"
proof (induction r rule: rev_induct)
  case Nil
  then show ?case by simp
next
  case (snoc x r)
  have "tokens (s @ r @ [x]) = tokens ((s @ r) @ [x])" by simp
  also have "\<dots> = tokens (s @ r)" using snoc.prems by (intro tokens_snoc_space) simp
  finally show ?case using snoc by simp
qed

subsection \<open>Contributions of a slide\<close>

lemma reducer_contribution:
  "reducer acc s = acc\<lparr>totalWords := totalWords acc + wordContribution s,
                       totalAvMinutes := totalAvMinutes acc + timeContribution s\<rparr>"
  by (cases "selectedSource s")
     (simp_all add: reducer_def wordContribution_def timeContribution_def getWordCount_spec)

lemma foldl_reducer_words:
  "totalWords (foldl reducer acc xs) = totalWords acc + sum_list (map wordContribution xs)"
  by (induction xs arbitrary: acc) (simp_all add: reducer_contribution)

lemma foldl_reducer_minutes:
  "totalAvMinutes (foldl reducer acc xs)
     = totalAvMinutes acc + sum_list (map timeContribution xs)"
  by (induction xs arbitrary: acc) (simp_all add: reducer_contribution)

lemma totals_sums:
  "totals slides = \<lparr>totalWords = sum_list (map wordContribution (activeSlides slides)),
                    totalAvMinutes = sum_list (map timeContribution (activeSlides slides))\<rparr>"
  by (simp add: totals_def foldl_reducer_words foldl_reducer_minutes)


text \<open>
  C3: the totals are the sums, over the active slides, of each slide's contribution,
  and one step of the aggregation adds exactly that contribution: for OST the word
  count of the on-screen text and no minutes, for AUDIO no words and the narration
  duration, for BOTH the two together. The word count of the code is the number of
  non-empty tokens between whitespace: a text of whitespace only (also the empty text)
  has 0 words, whitespace around a text does not change its count, a whitespace
  character between two texts adds their counts, and a non-empty text without
  whitespace is 1 word.
\<close>

theorem C3_slide_contribution:
  "totalWords (useCpeCalculator slides rq fq)
     = sum_list (map wordContribution (activeSlides slides))
   \<and> totalAvMinutes (useCpeCalculator slides rq fq)
     = sum_list (map timeContribution (activeSlides slides))
   \<and> reducer acc s = acc\<lparr>totalWords := totalWords acc + wordContribution s,
                         totalAvMinutes := totalAvMinutes acc + timeContribution s\<rparr>
   \<and> getWordCount text = wordCount_spec text
   \<and> ((\<forall>c \<in> set text. isSpace c) \<longrightarrow> getWordCount text = 0)
   \<and> ((\<forall>c \<in> set l. isSpace c) \<and> (\<forall>c \<in> set r. isSpace c)
        \<longrightarrow> getWordCount (l @ text @ r) = getWordCount text)
   \<and> (isSpace sep \<longrightarrow> getWordCount (a @ sep # b) = getWordCount a + getWordCount b)
   \<and> (text \<noteq> [] \<and> (\<forall>c \<in> set text. \<not> isSpace c) \<longrightarrow> getWordCount text = 1)"
proof -
  have w: "totalWords (useCpeCalculator slides rq fq)
      = sum_list (map wordContribution (activeSlides slides))"
    by (simp add: totals_sums)
  have t: "totalAvMinutes (useCpeCalculator slides rq fq)
      = sum_list (map timeContribution (activeSlides slides))"
    by (simp add: totals_sums)
  have r: "reducer acc s = acc\<lparr>totalWords := totalWords acc + wordContribution s,
      totalAvMinutes := totalAvMinutes acc + timeContribution s\<rparr>"
    by (rule reducer_contribution)
  have g: "getWordCount text = wordCount_spec text"
    by (rule getWordCount_spec)
  have z: "(\<forall>c \<in> set text. isSpace c) \<longrightarrow> getWordCount text = 0"
    by (simp add: getWordCount_spec wordCount_spec_def tokens_spaces)
  have lt: "(\<forall>c \<in> set l. isSpace c) \<and> (\<forall>c \<in> set r. isSpace c)
      \<longrightarrow> getWordCount (l @ text @ r) = getWordCount text"
    by (simp add: getWordCount_spec wordCount_spec_def tokens_lead tokens_trail)
  have sp: "isSpace sep \<longrightarrow> getWordCount (a @ sep # b) = getWordCount a + getWordCount b"
    by (simp add: getWordCount_spec wordCount_spec_def tokens_append_sep)
  have one: "text \<noteq> [] \<and> (\<forall>c \<in> set text. \<not> isSpace c) \<longrightarrow> getWordCount text = 1"
    by (simp add: getWordCount_spec wordCount_spec_def tokens_word)
  from w t r g z lt sp one show ?thesis by blast
qed

text \<open>
  On the example deck the active slides contribute 4, 0, 2 and 0 words and 0, 90, 2 and
  0 minutes; the word-count laws are instantiated at short texts.
\<close>

theorem C3_slide_contribution_witness:
  "totalWords (useCpeCalculator exampleDeck (Num 0) (Num 0)) = 6
   \<and> totalAvMinutes (useCpeCalculator exampleDeck (Num 0) (Num 0)) = 92
   \<and> getWordCount ''  '' = 0
   \<and> getWordCount ('' '' @ ''fox'' @ ''  '') = getWordCount ''fox''
   \<and> getWordCount (''quick brown'' @ CHR '' '' # ''fox'') = getWordCount ''quick brown'' + getWordCount ''fox''
   \<and> getWordCount ''fox'' = 1"
proof -
  have a: "map wordContribution (activeSlides exampleDeck) = [4, 0, 2, 0]" by code_simp
  have b: "map timeContribution (activeSlides exampleDeck) = [0, 90, 2, 0]" by code_simp
  have c: "isSpace CHR '' ''" by code_simp
  have d: "\<forall>c \<in> set ''  ''. isSpace c" by code_simp
  have d1: "\<forall>c \<in> set '' ''. isSpace c" by code_simp
  have e: "''fox'' \<noteq> [] \<and> (\<forall>c \<in> set ''fox''. \<not> isSpace c)" by code_simp
  note T1 = C3_slide_contribution [of exampleDeck "Num 0" "Num 0" _ _ "''  ''"]
  note T2 = C3_slide_contribution [of exampleDeck "Num 0" "Num 0" _ _ "''fox''" "'' ''" "''  ''"
      "CHR '' ''" "''quick brown''" "''fox''"]
  have "totalWords (useCpeCalculator exampleDeck (Num 0) (Num 0))
      = sum_list (map wordContribution (activeSlides exampleDeck))"
    using T1 by blast
  then have w: "totalWords (useCpeCalculator exampleDeck (Num 0) (Num 0)) = 6"
    by (simp only: a) simp
  have "totalAvMinutes (useCpeCalculator exampleDeck (Num 0) (Num 0))
      = sum_list (map timeContribution (activeSlides exampleDeck))"
    using T1 by blast
  then have t: "totalAvMinutes (useCpeCalculator exampleDeck (Num 0) (Num 0)) = 92"
    by (simp only: b) simp
  have z: "getWordCount ''  '' = 0" using T1 d by blast
  have lt: "getWordCount ('' '' @ ''fox'' @ ''  '') = getWordCount ''fox''"
    using T2 d d1 by blast
  have sp: "getWordCount (''quick brown'' @ CHR '' '' # ''fox'')
      = getWordCount ''quick brown'' + getWordCount ''fox''"
    using T2 c by blast
  have one: "getWordCount ''fox'' = 1" using T2 e by blast
  from w t z lt sp one show ?thesis by blast
qed

subsection \<open>Question counts\<close>

text \<open>
  C6, as the code has it: totalQuestions is the sum of the two counts with a NaN count
  taken as 0 and every other count, a negative one too, taken as it is; so the sum is
  the specification's (negative or NaN counted as 0) whenever neither count is
  negative. questionsCpe is totalQuestions times 1.85.
\<close>

theorem C6_question_total:
  "totalQuestions (useCpeCalculator slides rq fq)
     = (case rq of NaN \<Rightarrow> 0 | Num r \<Rightarrow> r) + (case fq of NaN \<Rightarrow> 0 | Num f \<Rightarrow> f)
   \<and> questionsCpe (useCpeCalculator slides rq fq)
     = totalQuestions (useCpeCalculator slides rq fq) * 1.85
   \<and> ((\<forall>r. rq = Num r \<longrightarrow> 0 \<le> r) \<and> (\<forall>f. fq = Num f \<longrightarrow> 0 \<le> f)
        \<longrightarrow> totalQuestions (useCpeCalculator slides rq fq) = spec_count rq + spec_count fq)"
  by (cases rq; cases fq) (simp_all add: orZero_def spec_count_def)


text \<open>
  With the counts NaN and 5 the total is 5 and questionsCpe is 9.25, as the
  specification has it; with - 3 and 5 the total is 2.
\<close>

theorem C6_question_total_witness:
  "totalQuestions (useCpeCalculator [] NaN (Num 5)) = 5
   \<and> questionsCpe (useCpeCalculator [] NaN (Num 5)) = 9.25
   \<and> spec_count NaN + spec_count (Num 5) = 5
   \<and> totalQuestions (useCpeCalculator [] (Num (- 3)) (Num 5)) = 2"
  using C6_question_total [of "[]" NaN "Num 5"] C6_question_total [of "[]" "Num (- 3)" "Num 5"]
  by (simp add: spec_count_def)

text \<open>
  The claim as stated fails for a negative count: with counts - 3 and 5 the code's
  total is 2, while counting the negative one as 0 gives 5.
\<close>

theorem C6_negative_count_counterexample:
  "totalQuestions (useCpeCalculator [] (Num (- 3)) (Num 5)) = 2
   \<and> spec_count (Num (- 3)) + spec_count (Num 5) = 5"
  by (simp add: orZero_def spec_count_def)

subsection \<open>Monotonicity of the rounded value\<close>

text \<open>
  C7: roundedCpe is monotone in the three totals: when no total of the first input
  exceeds the same total of the second (in particular when two of them agree and the
  third increases), the roundedCpe of the first is at most that of the second.
\<close>

theorem C7_rounded_monotone:
  assumes "totalWords (useCpeCalculator s1 r1 f1) \<le> totalWords (useCpeCalculator s2 r2 f2)"
    and "totalAvMinutes (useCpeCalculator s1 r1 f1) \<le> totalAvMinutes (useCpeCalculator s2 r2 f2)"
    and "totalQuestions (useCpeCalculator s1 r1 f1) \<le> totalQuestions (useCpeCalculator s2 r2 f2)"
  shows "roundedCpe (useCpeCalculator s1 r1 f1) \<le> roundedCpe (useCpeCalculator s2 r2 f2)"
proof -
  let ?m1 = "useCpeCalculator s1 r1 f1" and ?m2 = "useCpeCalculator s2 r2 f2"
  have w: "real (totalWords (totals s1)) \<le> real (totalWords (totals s2))"
    using assms(1) by simp
  have a: "totalAvMinutes (totals s1) \<le> totalAvMinutes (totals s2)"
    using assms(2) by simp
  have q: "orZero r1 + orZero f1 \<le> orZero r2 + orZero f2"
    using assms(3) by simp
  have w': "real (totalWords (totals s1)) / 180 \<le> real (totalWords (totals s2)) / 180"
    using w by (simp add: divide_right_mono)
  have q': "(orZero r1 + orZero f1) * 1.85 \<le> (orZero r2 + orZero f2) * 1.85"
    using q by (intro mult_right_mono) simp_all
  have "real (totalWords (totals s1)) / 180 + totalAvMinutes (totals s1)
        + (orZero r1 + orZero f1) * 1.85
      \<le> real (totalWords (totals s2)) / 180 + totalAvMinutes (totals s2)
        + (orZero r2 + orZero f2) * 1.85"
    using w' a q' by (intro add_mono)
  then have "rawCpeHours ?m1 \<le> rawCpeHours ?m2"
    unfolding rawCpeHours_calc by (rule divide_right_mono) simp
  then have "real_of_int \<lfloor>rawCpeHours ?m1 * 2\<rfloor> / 2
      \<le> real_of_int \<lfloor>rawCpeHours ?m2 * 2\<rfloor> / 2"
    by (rule half_floor_mono)
  then have "max 0 (real_of_int \<lfloor>rawCpeHours ?m1 * 2\<rfloor> / 2)
      \<le> max 0 (real_of_int \<lfloor>rawCpeHours ?m2 * 2\<rfloor> / 2)"
    by (rule max.mono [OF order_refl])
  then show ?thesis
    by (simp only: roundedCpe_calc)
qed

text \<open>89 against 90 audio minutes, nothing else: roundedCpe 1 against 1.5.\<close>

theorem C7_rounded_monotone_witness:
  "totalWords (useCpeCalculator [audioSlide 89] (Num 0) (Num 0))
     \<le> totalWords (useCpeCalculator [audioSlide 90] (Num 0) (Num 0))
   \<and> totalAvMinutes (useCpeCalculator [audioSlide 89] (Num 0) (Num 0))
     \<le> totalAvMinutes (useCpeCalculator [audioSlide 90] (Num 0) (Num 0))
   \<and> totalQuestions (useCpeCalculator [audioSlide 89] (Num 0) (Num 0))
     \<le> totalQuestions (useCpeCalculator [audioSlide 90] (Num 0) (Num 0))
   \<and> roundedCpe (useCpeCalculator [audioSlide 89] (Num 0) (Num 0))
     \<le> roundedCpe (useCpeCalculator [audioSlide 90] (Num 0) (Num 0))
   \<and> roundedCpe (useCpeCalculator [audioSlide 89] (Num 0) (Num 0)) = 1
   \<and> roundedCpe (useCpeCalculator [audioSlide 90] (Num 0) (Num 0)) = 1.5"
proof -
  have a: "totalWords (useCpeCalculator [audioSlide 89] (Num 0) (Num 0))
     \<le> totalWords (useCpeCalculator [audioSlide 90] (Num 0) (Num 0))"
    by (simp add: totals_audioSlide)
  have b: "totalAvMinutes (useCpeCalculator [audioSlide 89] (Num 0) (Num 0))
     \<le> totalAvMinutes (useCpeCalculator [audioSlide 90] (Num 0) (Num 0))"
    by (simp add: totals_audioSlide)
  have c: "totalQuestions (useCpeCalculator [audioSlide 89] (Num 0) (Num 0))
     \<le> totalQuestions (useCpeCalculator [audioSlide 90] (Num 0) (Num 0))"
    by simp
  have r1: "rawCpeHours (useCpeCalculator [audioSlide 89] (Num 0) (Num 0)) = 89 / 60"
    by (simp add: rawCpeHours_calc totals_audioSlide orZero_def)
  have r2: "rawCpeHours (useCpeCalculator [audioSlide 90] (Num 0) (Num 0)) = 90 / 60"
    by (simp add: rawCpeHours_calc totals_audioSlide orZero_def)
  have d: "roundedCpe (useCpeCalculator [audioSlide 89] (Num 0) (Num 0)) = 1"
    unfolding roundedCpe_calc r1 by simp
  have e: "roundedCpe (useCpeCalculator [audioSlide 90] (Num 0) (Num 0)) = 1.5"
    unfolding roundedCpe_calc r2 by simp
  from a b c d e C7_rounded_monotone [OF a b c] show ?thesis by blast
qed

section \<open>Properties of the calculator over the range of doubles\<close>

lemma roundedCpe_fp_calc:
  "roundedCpe_fp (useCpeCalculator_fp rnd slides rq fq)
     = (let r = xhalf (xfloor (xmul rnd (rawCpeHours_fp (useCpeCalculator_fp rnd slides rq fq)) 2))
        in if xpositive r then r else Fin 0)"
  by (simp only: useCpeCalculator_fp_def Let_def CpeMetrics_fp.select_convs)

lemma clamp_half_floor_cases:
  fixes y :: xnum
  defines "c \<equiv> (if xpositive (xhalf (xfloor y)) then xhalf (xfloor y) else Fin 0)"
  shows "(c = PosInf \<or> (\<exists>k::nat. c = Fin (real k / 2))) \<and> (c = PosInf) = (y = PosInf)"
proof (cases y)
  case NaNx
  then have "c = Fin (real (0::nat) / 2)"
    by (simp add: c_def xfloor_def xhalf_def xpositive_def)
  then have "\<exists>k::nat. c = Fin (real k / 2)" by (rule exI)
  moreover have "(c = PosInf) = (y = PosInf)"
    using NaNx by (simp add: c_def xfloor_def xhalf_def xpositive_def)
  ultimately show ?thesis by simp
next
  case (Fin a)
  have "c = Fin (real (nat \<lfloor>a\<rfloor>) / 2)"
    by (cases "0 < \<lfloor>a\<rfloor>") (simp_all add: c_def Fin xfloor_def xhalf_def xpositive_def)
  then have "\<exists>k::nat. c = Fin (real k / 2)" by (rule exI)
  moreover have "(c = PosInf) = (y = PosInf)"
    using Fin by (simp add: c_def xfloor_def xhalf_def xpositive_def)
  ultimately show ?thesis by simp
next
  case PosInf
  then have "c = PosInf"
    by (simp add: c_def xfloor_def xhalf_def xpositive_def)
  then show ?thesis using PosInf by simp
next
  case NegInf
  then have "c = Fin (real (0::nat) / 2)"
    by (simp add: c_def xfloor_def xhalf_def xpositive_def)
  then have "\<exists>k::nat. c = Fin (real k / 2)" by (rule exI)
  moreover have "(c = PosInf) = (y = PosInf)"
    using NegInf by (simp add: c_def xfloor_def xhalf_def xpositive_def)
  ultimately show ?thesis by simp
qed

text \<open>
  C10, as the code has it: for every slide collection and all question counts, and
  whatever the rounding of the in-range results is, roundedCpe is never NaN and never
  negative: it is plus infinity or a non-negative integer multiple of one half, and it
  is plus infinity exactly when rawCpeHours * 2 is, that is when the arithmetic has
  overflowed.
\<close>

theorem C10_rounded_range:
  fixes rnd :: "real \<Rightarrow> real" and slides :: "Slide list" and rq fq :: jsnum
  defines "m \<equiv> useCpeCalculator_fp rnd slides rq fq"
  shows "(roundedCpe_fp m = PosInf \<or> (\<exists>k::nat. roundedCpe_fp m = Fin (real k / 2)))
    \<and> (roundedCpe_fp m = PosInf) = (xmul rnd (rawCpeHours_fp m) 2 = PosInf)"
  unfolding m_def roundedCpe_fp_calc Let_def by (rule clamp_half_floor_cases)

text \<open>
  One audio slide of 90 minutes with 10 and 5 questions: 117.75 minutes, roundedCpe
  1.5, with no overflow. A slide of minus 30 minutes with NaN counts: the clamped
  value 0.
\<close>

theorem C10_rounded_range_witness:
  "roundedCpe_fp (useCpeCalculator_fp id [audioSlide 90] (Num 10) (Num 5)) = Fin 1.5
   \<and> (\<exists>k::nat. roundedCpe_fp (useCpeCalculator_fp id [audioSlide 90] (Num 10) (Num 5))
         = Fin (real k / 2))
   \<and> xmul id (rawCpeHours_fp (useCpeCalculator_fp id [audioSlide 90] (Num 10) (Num 5))) 2
       \<noteq> PosInf
   \<and> roundedCpe_fp (useCpeCalculator_fp id [audioSlide (- 30)] NaN NaN) = Fin 0"
proof -
  let ?m = "useCpeCalculator_fp id [audioSlide 90] (Num 10) (Num 5)"
  have a: "roundedCpe_fp ?m = Fin 1.5"
    by (simp add: useCpeCalculator_fp_def totals_fp_def activeSlides_def orZero_def fin_def
        overflowBound_def xmul_def xdiv_def xfloor_def xhalf_def xpositive_def Let_def
        reducer_fp_def audioSlide_def createSlideObject_def)
  have b: "roundedCpe_fp (useCpeCalculator_fp id [audioSlide (- 30)] NaN NaN) = Fin 0"
    by (simp add: useCpeCalculator_fp_def totals_fp_def activeSlides_def orZero_def fin_def
        overflowBound_def xmul_def xdiv_def xfloor_def xhalf_def xpositive_def Let_def
        reducer_fp_def audioSlide_def createSlideObject_def)
  note T = C10_rounded_range [where rnd = id and slides = "[audioSlide 90]"
      and rq = "Num 10" and fq = "Num 5"]
  have n: "roundedCpe_fp ?m \<noteq> PosInf" unfolding a by simp
  from T have "roundedCpe_fp ?m = PosInf \<or> (\<exists>k::nat. roundedCpe_fp ?m = Fin (real k / 2))"
    by (rule conjunct1)
  with n have c: "\<exists>k::nat. roundedCpe_fp ?m = Fin (real k / 2)" by simp
  from T have "(roundedCpe_fp ?m = PosInf) = (xmul id (rawCpeHours_fp ?m) 2 = PosInf)"
    by (rule conjunct2)
  with n have d: "xmul id (rawCpeHours_fp ?m) 2 \<noteq> PosInf" by simp
  from a c d b show ?thesis by (intro conjI)
qed

text \<open>
  The claim as stated fails when the arithmetic overflows: with no slide and the
  question counts 10 ^ 308 and 0 the total of questions is finite, its product with
  1.85 is plus infinity, and so is roundedCpe, which is no multiple of one half.
\<close>

theorem C10_overflow_counterexample:
  "totalQuestions_fp (useCpeCalculator_fp id [] (Num (10 ^ 308)) (Num 0)) = Fin (10 ^ 308)
   \<and> questionsCpe_fp (useCpeCalculator_fp id [] (Num (10 ^ 308)) (Num 0)) = PosInf
   \<and> roundedCpe_fp (useCpeCalculator_fp id [] (Num (10 ^ 308)) (Num 0)) = PosInf"
  by (simp add: useCpeCalculator_fp_def totals_fp_def activeSlides_def orZero_def fin_def
      overflowBound_def xmul_def xdiv_def xfloor_def xhalf_def xpositive_def Let_def)

subsection \<open>Agreement with the exact calculator\<close>

text \<open>
  With exact in-range results (\<open>rnd\<close> the identity) a finite rawCpeHours is the
  rawCpeHours of the exact calculator: the two calculators differ only where a result
  leaves the range.
\<close>

lemma fin_id_Fin: "fin id x = Fin b \<Longrightarrow> b = x"
  by (simp add: fin_def split: if_splits)

lemma xadd_id_Fin: "xadd id x y = Fin b \<Longrightarrow> \<exists>a c. x = Fin a \<and> y = Fin c \<and> b = a + c"
  by (cases x; cases y) (auto dest: fin_id_Fin)

lemma xmul_id_Fin: "xmul id x c = Fin b \<Longrightarrow> \<exists>a. x = Fin a \<and> b = a * c"
  by (cases x) (auto simp: xmul_def dest: fin_id_Fin)

lemma xdiv_id_Fin: "xdiv id x c = Fin b \<Longrightarrow> \<exists>a. x = Fin a \<and> b = a / c"
  by (cases x) (auto simp: xdiv_def dest: fin_id_Fin)

lemma foldl_reducer_fp_words:
  "totalWords_fp (foldl (reducer_fp rnd) acc xs)
     = totalWords_fp acc + sum_list (map wordContribution xs)"
  by (induction xs arbitrary: acc)
     (auto simp: reducer_fp_def wordContribution_def getWordCount_spec split: SourceType.splits)

lemma reducer_fp_minutes:
  "totalAvMinutes_fp (reducer_fp id acc s) = Fin b \<Longrightarrow>
   \<exists>a. totalAvMinutes_fp acc = Fin a \<and> b = a + timeContribution s"
  by (cases "selectedSource s")
     (auto simp: reducer_fp_def timeContribution_def dest: xadd_id_Fin)

lemma foldl_reducer_fp_minutes:
  "totalAvMinutes_fp (foldl (reducer_fp id) acc xs) = Fin b \<Longrightarrow>
   \<exists>a. totalAvMinutes_fp acc = Fin a \<and> b = a + sum_list (map timeContribution xs)"
proof (induction xs arbitrary: acc)
  case Nil
  then show ?case by simp
next
  case (Cons x xs)
  from Cons.prems have "totalAvMinutes_fp (foldl (reducer_fp id) (reducer_fp id acc x) xs) = Fin b"
    by (simp only: foldl_Cons)
  from Cons.IH [OF this] obtain a
    where a: "totalAvMinutes_fp (reducer_fp id acc x) = Fin a"
      and b: "b = a + sum_list (map timeContribution xs)" by blast
  from reducer_fp_minutes [OF a] obtain a0
    where "totalAvMinutes_fp acc = Fin a0" and "a = a0 + timeContribution x" by blast
  with b show ?case by simp
qed

lemma fp_exact_raw:
  assumes "rawCpeHours_fp (useCpeCalculator_fp id slides rq fq) = Fin r"
  shows "r = rawCpeHours (useCpeCalculator slides rq fq)"
proof -
  let ?t = "totals_fp id slides"
  let ?q = "xadd id (Fin (orZero rq)) (Fin (orZero fq))"
  let ?w = "xdiv id (Fin (real (totalWords_fp ?t))) 180"
  have raw: "rawCpeHours_fp (useCpeCalculator_fp id slides rq fq)
      = xdiv id (xadd id (xadd id ?w (totalAvMinutes_fp ?t)) (xmul id ?q 1.85)) 60"
    by (simp only: useCpeCalculator_fp_def Let_def CpeMetrics_fp.select_convs)
  from assms raw obtain s where s: "xadd id (xadd id ?w (totalAvMinutes_fp ?t)) (xmul id ?q 1.85) = Fin s"
    and r: "r = s / 60" by (auto dest: xdiv_id_Fin)
  from xadd_id_Fin [OF s] obtain u v where u: "xadd id ?w (totalAvMinutes_fp ?t) = Fin u"
    and v: "xmul id ?q 1.85 = Fin v" and suv: "s = u + v" by blast
  from xadd_id_Fin [OF u] obtain w a where w: "?w = Fin w"
    and a: "totalAvMinutes_fp ?t = Fin a" and uwa: "u = w + a" by blast
  from xdiv_id_Fin [OF w] have w': "w = real (totalWords_fp ?t) / 180" by auto
  from xmul_id_Fin [OF v] obtain q where q: "?q = Fin q" and vq: "v = q * 1.85" by blast
  from xadd_id_Fin [OF q] have q': "q = orZero rq + orZero fq" by auto
  have tw: "totalWords_fp ?t = totalWords (totals slides)"
    by (simp add: totals_fp_def foldl_reducer_fp_words totals_sums)
  from a have "a = sum_list (map timeContribution (activeSlides slides))"
    unfolding totals_fp_def by (auto dest: foldl_reducer_fp_minutes)
  then have ta: "a = totalAvMinutes (totals slides)" by (simp add: totals_sums)
  show ?thesis
    unfolding rawCpeHours_calc r suv uwa w' vq q' tw ta by simp
qed

section \<open>Properties of the slide editor\<close>

lemma mountEditor_sel:
  "slide (mountEditor s) = s"
  "st_ost (mountEditor s) = ost s"
  "st_transcript (mountEditor s) = transcript s"
  "st_selectedSource (mountEditor s) = selectedSource s"
  "st_isFinalized (mountEditor s) = isFinalized s"
  "st_discardReason (mountEditor s) = []"
  "st_discardNote (mountEditor s) = []"
  "st_audioMeta (mountEditor s) = audioMeta s"
  "st_audioDuration (mountEditor s) = audioDuration s"
  by (simp_all add: mountEditor_def Let_def)

text \<open>
  C4: finalizing a draft whose source is AUDIO or BOTH while the duration is 0 fails:
  the handler returns false, sets the validation message, changes nothing else in the
  editor and sends no slide to the parent, whose list stays as it was. With a duration
  above 0 (for instance after a minutes entry that makes minutes + seconds / 60
  positive) finalizing the draft succeeds and sends the slide with the editor's
  current text, transcript, source, duration and audio attachment and with
  isFinalized true.
\<close>

theorem C4_finalize_guard:
  "(\<not> st_isFinalized e \<and> (st_selectedSource e = AUDIO \<or> st_selectedSource e = BOTH)
      \<and> st_audioDuration e = 0
    \<longrightarrow> handleFinalize e = (False, e\<lparr>finalizeError := Some finalizeMessage\<rparr>, None)
        \<and> applyUpdate (snd (snd (handleFinalize e))) currentSlides = currentSlides)
   \<and> (\<not> st_isFinalized e \<and> 0 < st_audioDuration e
    \<longrightarrow> handleFinalize e =
          (True, e\<lparr>finalizeError := None, st_isFinalized := True\<rparr>,
           Some ((slide e)\<lparr>ost := st_ost e, transcript := st_transcript e,
                   selectedSource := st_selectedSource e,
                   audioDuration := st_audioDuration e,
                   audioMeta := st_audioMeta e, isFinalized := True\<rparr>)))
   \<and> (\<not> st_isFinalized e \<and> 0 < real_of_int m + real_of_int (seconds e) / 60
    \<longrightarrow> fst (handleFinalize (durationEffect (onMinutesChange m e))) = True)"
  by (simp add: handleFinalize_def applyUpdate_def durationEffect_def onMinutesChange_def)

text \<open>
  The example editor (audio source, duration 0) cannot be finalized; after entering 2
  minutes it can, and the slide sent has duration 2 and is finalized.
\<close>

theorem C4_finalize_guard_witness:
  "handleFinalize exAudioEditor
     = (False, exAudioEditor\<lparr>finalizeError := Some finalizeMessage\<rparr>, None)
   \<and> applyUpdate (snd (snd (handleFinalize exAudioEditor))) [exDraft] = [exDraft]
   \<and> snd (snd (handleFinalize (durationEffect (onMinutesChange 2 exAudioEditor))))
     = Some (exDraft\<lparr>selectedSource := AUDIO, audioDuration := 2, isFinalized := True\<rparr>)
   \<and> fst (handleFinalize (durationEffect (onMinutesChange 2 exAudioEditor))) = True"
proof -
  have a: "\<not> st_isFinalized exAudioEditor
      \<and> (st_selectedSource exAudioEditor = AUDIO \<or> st_selectedSource exAudioEditor = BOTH)
      \<and> st_audioDuration exAudioEditor = 0"
    by (simp add: exAudioEditor_def setSelectedSource_def mountEditor_def Let_def exDraft_def createSlideObject_def)
  let ?e = "durationEffect (onMinutesChange 2 exAudioEditor)"
  have b: "\<not> st_isFinalized ?e \<and> 0 < st_audioDuration ?e"
    by (simp add: exAudioEditor_def setSelectedSource_def mountEditor_def Let_def exDraft_def createSlideObject_def
        durationEffect_def onMinutesChange_def)
  have c: "\<not> st_isFinalized exAudioEditor
      \<and> 0 < real_of_int 2 + real_of_int (seconds exAudioEditor) / 60"
    by (simp add: exAudioEditor_def setSelectedSource_def mountEditor_def Let_def exDraft_def createSlideObject_def)
  have d: "(slide ?e)\<lparr>ost := st_ost ?e, transcript := st_transcript ?e,
                   selectedSource := st_selectedSource ?e,
                   audioDuration := st_audioDuration ?e,
                   audioMeta := st_audioMeta ?e, isFinalized := True\<rparr>
      = exDraft\<lparr>selectedSource := AUDIO, audioDuration := 2, isFinalized := True\<rparr>"
    by (simp add: exAudioEditor_def setSelectedSource_def mountEditor_def Let_def exDraft_def createSlideObject_def
        durationEffect_def onMinutesChange_def)
  note T1 = C4_finalize_guard [of exAudioEditor "[exDraft]" 2]
  note T2 = C4_finalize_guard [of ?e "[exDraft]" 2]
  have 1: "handleFinalize exAudioEditor
     = (False, exAudioEditor\<lparr>finalizeError := Some finalizeMessage\<rparr>, None)"
    using T1 a by blast
  have 2: "applyUpdate (snd (snd (handleFinalize exAudioEditor))) [exDraft] = [exDraft]"
    using T1 a by blast
  have "snd (snd (handleFinalize ?e)) = Some ((slide ?e)\<lparr>ost := st_ost ?e, transcript := st_transcript ?e,
                   selectedSource := st_selectedSource ?e,
                   audioDuration := st_audioDuration ?e,
                   audioMeta := st_audioMeta ?e, isFinalized := True\<rparr>)"
    using T2 b by simp
  then have 3: "snd (snd (handleFinalize ?e))
     = Some (exDraft\<lparr>selectedSource := AUDIO, audioDuration := 2, isFinalized := True\<rparr>)"
    by (simp only: d)
  have 4: "fst (handleFinalize ?e) = True" using T1 c by blast
  from 1 2 3 4 show ?thesis by blast
qed

text \<open>
  C8: confirming a discard with an empty reason does nothing: the editor is unchanged
  and no slide is sent, so the parent's list stays as it was. With the reason Other and
  an empty note it sends the slide marked discarded, with that reason and the empty
  note. With any non-empty reason the slide is sent discarded and keeps its isFinalized
  value, whether the slide was a draft or finalized.
\<close>

theorem C8_discard_reason:
  "(st_discardReason e = []
      \<longrightarrow> handleDiscardConfirm now e = (e, None)
        \<and> applyUpdate (snd (handleDiscardConfirm now e)) currentSlides = currentSlides)
   \<and> (st_discardReason e = ''Other'' \<and> st_discardNote e = []
      \<longrightarrow> handleDiscardConfirm now e =
            (e\<lparr>isDiscardModalOpen := False\<rparr>,
             Some ((slide e)\<lparr>ost := st_ost e, transcript := st_transcript e,
                     selectedSource := st_selectedSource e,
                     audioDuration := st_audioDuration e,
                     audioMeta := st_audioMeta e,
                     isDiscarded := True, discardReason := Some ''Other'',
                     discardNote := Some [], discardedAt := Some now,
                     discardedBy := Some ''user''\<rparr>)))
   \<and> (st_discardReason e \<noteq> []
      \<longrightarrow> (\<exists>e' d. handleDiscardConfirm now e = (e', Some d) \<and> isDiscarded d
            \<and> discardReason d = Some (st_discardReason e)
            \<and> isFinalized d = isFinalized (slide e)))"
  by (simp add: handleDiscardConfirm_def applyUpdate_def)

text \<open>
  On the draft and on the finalized example slide: an empty reason is refused, the
  reason Other without a note discards.
\<close>

theorem C8_discard_reason_witness:
  "handleDiscardConfirm ''2024-01-01T00:00:00.000Z'' (mountEditor exDraft)
     = (mountEditor exDraft, None)
   \<and> handleDiscardConfirm ''2024-01-01T00:00:00.000Z'' (mountEditor exFinal)
     = (mountEditor exFinal, None)
   \<and> snd (handleDiscardConfirm ''2024-01-01T00:00:00.000Z''
        (setDiscardReason ''Other'' (mountEditor exFinal))) = Some exDiscarded
   \<and> snd (handleDiscardConfirm ''2024-01-01T00:00:00.000Z''
        (setDiscardReason ''Other'' (mountEditor exDraft)))
     = Some (exDraft\<lparr>isDiscarded := True, discardReason := Some ''Other'',
         discardNote := Some [], discardedAt := Some ''2024-01-01T00:00:00.000Z'',
         discardedBy := Some ''user''\<rparr>)"
proof -
  let ?now = "''2024-01-01T00:00:00.000Z''"
  have a: "st_discardReason (mountEditor exDraft) = []"
    by (simp add: mountEditor_def Let_def)
  have b: "st_discardReason (mountEditor exFinal) = []"
    by (simp add: mountEditor_def Let_def)
  have 1: "handleDiscardConfirm ?now (mountEditor exDraft) = (mountEditor exDraft, None)"
    using C8_discard_reason [of "mountEditor exDraft" ?now "[]"] a by blast
  have 2: "handleDiscardConfirm ?now (mountEditor exFinal) = (mountEditor exFinal, None)"
    using C8_discard_reason [of "mountEditor exFinal" ?now "[]"] b by blast
  let ?f = "setDiscardReason ''Other'' (mountEditor exFinal)"
  let ?d = "setDiscardReason ''Other'' (mountEditor exDraft)"
  have c: "st_discardReason ?f = ''Other'' \<and> st_discardNote ?f = []"
    by (simp add: mountEditor_def Let_def setDiscardReason_def)
  have c': "st_discardReason ?d = ''Other'' \<and> st_discardNote ?d = []"
    by (simp add: mountEditor_def Let_def setDiscardReason_def)
  have "snd (handleDiscardConfirm ?now ?f) = Some ((slide ?f)\<lparr>ost := st_ost ?f, transcript := st_transcript ?f,
                     selectedSource := st_selectedSource ?f,
                     audioDuration := st_audioDuration ?f,
                     audioMeta := st_audioMeta ?f,
                     isDiscarded := True, discardReason := Some ''Other'',
                     discardNote := Some [], discardedAt := Some ?now,
                     discardedBy := Some ''user''\<rparr>)"
    using C8_discard_reason [of ?f ?now "[]"] c by simp
  then have 3: "snd (handleDiscardConfirm ?now ?f) = Some exDiscarded"
    by (simp add: mountEditor_def Let_def setDiscardReason_def exDiscarded_def exFinal_def
        exDraft_def createSlideObject_def)
  have "snd (handleDiscardConfirm ?now ?d) = Some ((slide ?d)\<lparr>ost := st_ost ?d, transcript := st_transcript ?d,
                     selectedSource := st_selectedSource ?d,
                     audioDuration := st_audioDuration ?d,
                     audioMeta := st_audioMeta ?d,
                     isDiscarded := True, discardReason := Some ''Other'',
                     discardNote := Some [], discardedAt := Some ?now,
                     discardedBy := Some ''user''\<rparr>)"
    using C8_discard_reason [of ?d ?now "[]"] c' by simp
  then have 4: "snd (handleDiscardConfirm ?now ?d)
     = Some (exDraft\<lparr>isDiscarded := True, discardReason := Some ''Other'',
         discardNote := Some [], discardedAt := Some ?now, discardedBy := Some ''user''\<rparr>)"
    by (simp add: mountEditor_def Let_def setDiscardReason_def exDraft_def createSlideObject_def)
  from 1 2 3 4 show ?thesis by blast
qed

text \<open>
  C5, as the code has it: undoing a discard has no guard; the slide it sends has
  isDiscarded false and the undo stamp (undoAt, undoBy), and is otherwise the slide as
  it was: isFinalized, discardReason and discardNote are kept. Since the discard kept
  isFinalized and stored the reason, the slide comes back with the isFinalized value it
  had when it was discarded and with the reason and note of the discard.
\<close>

theorem C5_undo_discard:
  "isDiscarded (handleUndoDiscard now e) = False
   \<and> undoAt (handleUndoDiscard now e) = Some now
   \<and> undoBy (handleUndoDiscard now e) = Some ''user''
   \<and> isFinalized (handleUndoDiscard now e) = isFinalized (slide e)
   \<and> discardReason (handleUndoDiscard now e) = discardReason (slide e)
   \<and> discardNote (handleUndoDiscard now e) = discardNote (slide e)
   \<and> handleUndoDiscard now e
       = (slide e)\<lparr>isDiscarded := False, undoAt := Some now, undoBy := Some ''user''\<rparr>
   \<and> (handleDiscardConfirm t e0 = (e1, Some d) \<and> slide e = d
      \<longrightarrow> isFinalized (handleUndoDiscard now e) = isFinalized (slide e0)
        \<and> discardReason (handleUndoDiscard now e) = Some (st_discardReason e0)
        \<and> discardNote (handleUndoDiscard now e)
            = Some (if st_discardReason e0 = ''Other'' then st_discardNote e0 else []))"
  by (auto simp add: handleUndoDiscard_def handleDiscardConfirm_def split: if_splits)

text \<open>
  The finalized example slide, discarded with the reason Other and then un-discarded.
\<close>

theorem C5_undo_discard_witness:
  "snd (handleDiscardConfirm ''2024-01-01T00:00:00.000Z''
          (setDiscardReason ''Other'' (mountEditor exFinal))) = Some exDiscarded
   \<and> isDiscarded (handleUndoDiscard ''2024-01-02T00:00:00.000Z'' (mountEditor exDiscarded)) = False
   \<and> undoAt (handleUndoDiscard ''2024-01-02T00:00:00.000Z'' (mountEditor exDiscarded))
       = Some ''2024-01-02T00:00:00.000Z''
   \<and> isFinalized (handleUndoDiscard ''2024-01-02T00:00:00.000Z'' (mountEditor exDiscarded))
       = isFinalized exFinal
   \<and> discardReason (handleUndoDiscard ''2024-01-02T00:00:00.000Z'' (mountEditor exDiscarded))
       = Some ''Other''"
proof -
  let ?t1 = "''2024-01-01T00:00:00.000Z''" and ?t2 = "''2024-01-02T00:00:00.000Z''"
  let ?e0 = "setDiscardReason ''Other'' (mountEditor exFinal)"
  let ?e1 = "?e0\<lparr>isDiscardModalOpen := False\<rparr>"
  have d: "handleDiscardConfirm ?t1 ?e0 = (?e1, Some exDiscarded)"
    by (simp add: handleDiscardConfirm_def setDiscardReason_def mountEditor_def Let_def
        exDiscarded_def exFinal_def exDraft_def createSlideObject_def)
  have s: "slide (mountEditor exDiscarded) = exDiscarded"
    by (rule mountEditor_sel)
  have r: "st_discardReason ?e0 = ''Other''" "slide ?e0 = exFinal"
    by (simp_all add: setDiscardReason_def mountEditor_sel)
  note T = C5_undo_discard [of ?t2 "mountEditor exDiscarded" ?t1 ?e0 ?e1 exDiscarded]
  have 1: "snd (handleDiscardConfirm ?t1 ?e0) = Some exDiscarded" using d by simp
  have 2: "isDiscarded (handleUndoDiscard ?t2 (mountEditor exDiscarded)) = False"
    using T by blast
  have 3: "undoAt (handleUndoDiscard ?t2 (mountEditor exDiscarded)) = Some ?t2"
    using T by blast
  have "isFinalized (handleUndoDiscard ?t2 (mountEditor exDiscarded)) = isFinalized (slide ?e0)"
    using T d s by blast
  then have 4: "isFinalized (handleUndoDiscard ?t2 (mountEditor exDiscarded)) = isFinalized exFinal"
    by (simp only: r)
  have "discardReason (handleUndoDiscard ?t2 (mountEditor exDiscarded)) = Some (st_discardReason ?e0)"
    using T d s by blast
  then have 5: "discardReason (handleUndoDiscard ?t2 (mountEditor exDiscarded)) = Some ''Other''"
    by (simp only: r)
  from 1 2 3 4 5 show ?thesis by blast
qed

text \<open>
  The claim as stated fails: the draft is finalized, the finalized slide is discarded
  with the reason Other, and the undo returns a slide that is finalized (not a draft)
  and still carries the reason and the note.
\<close>

theorem C5_undo_keeps_finalized_counterexample:
  "snd (snd (handleFinalize (mountEditor exDraft))) = Some exFinal
   \<and> snd (handleDiscardConfirm ''2024-01-01T00:00:00.000Z''
          (setDiscardReason ''Other'' (mountEditor exFinal))) = Some exDiscarded
   \<and> isDiscarded (handleUndoDiscard ''2024-01-02T00:00:00.000Z'' (mountEditor exDiscarded)) = False
   \<and> isFinalized (handleUndoDiscard ''2024-01-02T00:00:00.000Z'' (mountEditor exDiscarded)) = True
   \<and> discardReason (handleUndoDiscard ''2024-01-02T00:00:00.000Z'' (mountEditor exDiscarded))
       = Some ''Other''
   \<and> discardNote (handleUndoDiscard ''2024-01-02T00:00:00.000Z'' (mountEditor exDiscarded))
       = Some []"
  by (simp add: handleFinalize_def handleDiscardConfirm_def handleUndoDiscard_def
      setDiscardReason_def mountEditor_def Let_def
      exDiscarded_def exFinal_def exDraft_def createSlideObject_def)

section \<open>Properties of the file parser\<close>

text \<open>
  C9: a row whose slide-number cell is not a number and whose text is not empty is to
  be kept, with its 1-based position among the retained rows as id. The code drops it:
  on the sheet and on the CSV row with the slide-number cell n/a and the text
  hello world both parsers return no slide. The cell parses to NaN and the text is not
  empty after trimming. The map callback itself would give the row the id 1, and the
  same row is kept with the id 1 when the sheet has no slide-number column.
\<close>

theorem C9_row_with_content_dropped:
  "parseXlsx exSheet = Inr []
   \<and> parseCsv (Some [''Slide No'', ''OST'']) [exCsvRow] = Inr []
   \<and> parseInt ''n/a'' = IntNaN
   \<and> trim ''hello world'' = ''hello world''
   \<and> xlsxRowToSlide (Some 0) (Some 1) None (0, [Some ''n/a'', Some ''hello world''])
       = createSlideObject (IntVal 1) ''hello world'' []
   \<and> parseXlsx exSheetUnnumbered = Inr [createSlideObject (IntVal 1) ''hello world'' []]"
  by code_simp

end
